theory Spec2Isabelle
  imports Complex_Main "HOL-Library.Sublist"
begin

section \<open>CritView: unit registry, data loading and parametric fit\<close>

text \<open>
  A shallow embedding of \<^verbatim>\<open>critview_app.py\<close>. Python dictionaries whose key order
  is observable (\<^verbatim>\<open>list(d.keys())\<close>) are association lists in source order; every
  exception the Python can raise is a value of \<open>py_exn\<close>. Python floats are
  idealised as \<open>real\<close>; a NaN is the absent value \<open>None\<close>.
\<close>

datatype py_exn = KeyError | ValueError | ZeroDivisionError | IndexError

subsection \<open>Unit conversion database\<close>

definition CONVERSION_FACTORS :: "(string \<times> (string \<times> real) list) list" where
  "CONVERSION_FACTORS =
    [(''length'',
        [(''centimeters (cm)'', 1.0),
         (''meters (m)'', 100.0),
         (''inches (in)'', 2.54),
         (''feet (ft)'', 30.48)]),
     (''concentration_vol'',
        [(''g/cc'', 1.0),
         (''g/L'', 1000.0),
         (''kg/m^3'', 1000.0),
         (''g/ft^3'', 28316.8466)]),
     (''mass'',
        [(''grams (g)'', 1.0),
         (''kilograms (kg)'', 1000.0),
         (''ounces (oz)'', 28.3495),
         (''pounds (lb)'', 453.592)]),
     (''volume'',
        [(''cm^3 (cc)'', 1.0),
         (''liters (L)'', 1000.0),
         (''in^3'', 16.3871),
         (''ft^3'', 28316.8466),
         (''gallons (US)'', 3785.41)]),
     (''concentration_linear'',
        [(''g/ft'', 1.0),
         (''g/cm'', 30.48),
         (''kg/m'', 32.8084)]),
     (''concentration_areal'',
        [(''kg/ft^2'', 1.0),
         (''g/cm^2'', 10.7639)])]"

definition VARIABLE_TO_CATEGORY :: "(string \<times> (string \<times> string)) list" where
  "VARIABLE_TO_CATEGORY =
    [(''Diameter in'', (''length'', ''inches (in)'')),
     (''Height in'', (''length'', ''inches (in)'')),
     (''Radius in'', (''length'', ''inches (in)'')),
     (''Thickness in'', (''length'', ''inches (in)'')),
     (''critconc g/cc'', (''concentration_vol'', ''g/cc'')),
     (''critconc g/L'', (''concentration_vol'', ''g/L'')),
     (''critconc_linear g/ft'', (''concentration_linear'', ''g/ft'')),
     (''critconc_areal kg/ft2'', (''concentration_areal'', ''kg/ft^2'')),
     (''critmass kg'', (''mass'', ''kilograms (kg)'')),
     (''volume L'', (''volume'', ''liters (L)'')),
     (''volume gal'', (''volume'', ''gallons (US)''))]"

text \<open>
  \<^verbatim>\<open>get_unit_info(var_name)\<close>: the membership test, the tuple unpacking and the
  subscript \<^verbatim>\<open>CONVERSION_FACTORS[category]\<close>, which raises \<open>KeyError\<close> for a
  category that is not a key.
\<close>

definition get_unit_info :: "string \<Rightarrow> py_exn + (string \<times> string \<times> string list)" where
  "get_unit_info var_name =
     (case map_of VARIABLE_TO_CATEGORY var_name of
        Some (category, base_unit) \<Rightarrow>
          (case map_of CONVERSION_FACTORS category of
             None \<Rightarrow> Inl KeyError
           | Some units \<Rightarrow> Inr (category, base_unit, map fst units))
      | None \<Rightarrow> Inr (''unknown'', var_name, [var_name]))"

text \<open>The double subscript \<^verbatim>\<open>CONVERSION_FACTORS[category][unit]\<close>.\<close>

definition factor_of :: "string \<Rightarrow> string \<Rightarrow> py_exn + real" where
  "factor_of category unit_name =
     (case map_of CONVERSION_FACTORS category of
        None \<Rightarrow> Inl KeyError
      | Some units \<Rightarrow>
          (case map_of units unit_name of
             None \<Rightarrow> Inl KeyError
           | Some v \<Rightarrow> Inr v))"

text \<open>
  The quotient \<^verbatim>\<open>CONVERSION_FACTORS[c][base_unit] / CONVERSION_FACTORS[c][unit_selected]\<close>
  of lines 248 and 252. Both operands are Python floats, so a zero divisor raises.
\<close>

definition conv_quotient :: "string \<Rightarrow> string \<Rightarrow> string \<Rightarrow> py_exn + real" where
  "conv_quotient category base_unit unit_selected =
     (case factor_of category base_unit of
        Inl e \<Rightarrow> Inl e
      | Inr a \<Rightarrow>
          (case factor_of category unit_selected of
             Inl e \<Rightarrow> Inl e
           | Inr b \<Rightarrow> if b = 0 then Inl ZeroDivisionError else Inr (a / b)))"

text \<open>
  \<^verbatim>\<open>x_conv_factor\<close> / \<^verbatim>\<open>y_conv_factor\<close> (lines 247-254): the table is consulted
  only when the category is not the string \<^verbatim>\<open>"unknown"\<close>.
\<close>

definition conv_factor :: "string \<Rightarrow> string \<Rightarrow> string \<Rightarrow> py_exn + real" where
  "conv_factor category base_unit unit_selected =
     (if category \<noteq> ''unknown'' then conv_quotient category base_unit unit_selected
      else Inr 1.0)"

text \<open>
  The unit choice of one axis (lines 227-254). \<open>ui_unit\<close> is the value the unit
  select box returns; the box is built with \<^verbatim>\<open>index=options.index(base_unit)\<close>, which
  raises \<open>ValueError\<close> when the base unit is not among the options. The result is the
  selected unit and the conversion factor.
\<close>

definition axis_units :: "string \<Rightarrow> string \<Rightarrow> py_exn + (string \<times> real)" where
  "axis_units var_name ui_unit =
     (case get_unit_info var_name of
        Inl e \<Rightarrow> Inl e
      | Inr (category, base_unit, options) \<Rightarrow>
          (case (if category = ''unknown'' then Inr var_name
                 else if base_unit \<in> set options then Inr ui_unit
                 else Inl ValueError) of
             Inl e \<Rightarrow> Inl e
           | Inr unit_selected \<Rightarrow>
               (case conv_factor category base_unit unit_selected of
                  Inl e \<Rightarrow> Inl e
                | Inr f \<Rightarrow> Inr (unit_selected, f))))"

text \<open>\<^verbatim>\<open>x_display = x_raw * x_conv_factor\<close>: numpy multiplies element-wise into a new array.\<close>

definition display :: "real list \<Rightarrow> real \<Rightarrow> real list" where
  "display raw factor = map (\<lambda>v. v * factor) raw"

subsection \<open>The data frame\<close>

text \<open>
  A cell of the data frame as pandas holds it: a float, a text, or NaN (a missing or
  not coercible value). \<open>'v\<close> is the type of the float values that are not NaN; the
  loader and the fit only move them around, so they stay abstract there.
\<close>

datatype 'v pyval = Num 'v | Str string | NaN

text \<open>Python's \<^verbatim>\<open>==\<close> on two cells: NaN equals nothing, a text never equals a float.\<close>

fun py_eq :: "'v pyval \<Rightarrow> 'v pyval \<Rightarrow> bool" where
  "py_eq (Num a) (Num b) = (a = b)"
| "py_eq (Str a) (Str b) = (a = b)"
| "py_eq _ _ = False"

text \<open>Truth value of a cell in \<^verbatim>\<open>if selected_title:\<close>; a float is false only when zero.\<close>

fun truthy :: "'v::zero pyval \<Rightarrow> bool" where
  "truthy (Str s) = (s \<noteq> [])"
| "truthy (Num v) = (v \<noteq> 0)"
| "truthy NaN = True"

record 'v attrs =
  title :: "'v pyval"
  geometry :: "'v pyval"
  fiss_element :: "'v pyval"
  critmat :: "'v pyval"
  fiss_form :: "'v pyval"
  isomat :: "'v pyval"
  modmat :: "'v pyval"
  reflmat :: "'v pyval"
  reflthick :: "'v pyval"
  X_Variable :: "'v pyval"
  Y_Variable :: "'v pyval"

text \<open>
  One row: the columns the program reads by name, and the two value columns, whose
  type changes from raw cells to floats during loading.
\<close>

record ('v, 'c) row =
  attrs :: "'v attrs"
  X_Value :: 'c
  Y_Value :: 'c

subsection \<open>Loading\<close>

text \<open>\<^verbatim>\<open>df.replace('nan', np.nan, inplace=True)\<close>, applied to every cell of the frame.\<close>

definition replace_nan :: "'v pyval \<Rightarrow> 'v pyval" where
  "replace_nan c = (if c = Str ''nan'' then NaN else c)"

definition replace_row :: "('v, 'v pyval) row \<Rightarrow> ('v, 'v pyval) row" where
  "replace_row r =
     \<lparr>attrs = \<lparr>title = replace_nan (title (attrs r)),
               geometry = replace_nan (geometry (attrs r)),
               fiss_element = replace_nan (fiss_element (attrs r)),
               critmat = replace_nan (critmat (attrs r)),
               fiss_form = replace_nan (fiss_form (attrs r)),
               isomat = replace_nan (isomat (attrs r)),
               modmat = replace_nan (modmat (attrs r)),
               reflmat = replace_nan (reflmat (attrs r)),
               reflthick = replace_nan (reflthick (attrs r)),
               X_Variable = replace_nan (X_Variable (attrs r)),
               Y_Variable = replace_nan (Y_Variable (attrs r))\<rparr>,
      X_Value = replace_nan (X_Value r),
      Y_Value = replace_nan (Y_Value r)\<rparr>"

text \<open>
  \<^verbatim>\<open>pd.to_numeric(..., errors='coerce')\<close> on one cell. \<open>parse\<close> is pandas' reading of
  a text as a float; \<open>None\<close> is the NaN that a text which is no number is coerced to.
\<close>

definition to_numeric :: "(string \<Rightarrow> 'v option) \<Rightarrow> 'v pyval \<Rightarrow> 'v option" where
  "to_numeric parse c = (case c of Num v \<Rightarrow> Some v | Str s \<Rightarrow> parse s | NaN \<Rightarrow> None)"

definition coerce_row :: "(string \<Rightarrow> 'v option) \<Rightarrow> ('v, 'v pyval) row \<Rightarrow> ('v, 'v option) row" where
  "coerce_row parse r =
     \<lparr>attrs = attrs r,
      X_Value = to_numeric parse (X_Value r),
      Y_Value = to_numeric parse (Y_Value r)\<rparr>"

text \<open>
  \<^verbatim>\<open>df.dropna(subset=['X_Value', 'Y_Value'])\<close>: a row stays when neither value is NaN.
  The rows that stay hold floats, in the order they had.
\<close>

fun dropna :: "('v, 'v option) row list \<Rightarrow> ('v, 'v) row list" where
  "dropna [] = []"
| "dropna (r # rs) =
     (case (X_Value r, Y_Value r) of
        (Some x, Some y) \<Rightarrow> \<lparr>attrs = attrs r, X_Value = x, Y_Value = y\<rparr> # dropna rs
      | _ \<Rightarrow> dropna rs)"

datatype load_exn = FileNotFoundError | OtherException

datatype load_msg = file_not_found | load_failed

text \<open>
  \<^verbatim>\<open>load_data\<close>. \<open>csv\<close> is what \<^verbatim>\<open>pd.read_csv(filepath)\<close> does: the frame, or the
  exception it raises. The result is the message shown with \<^verbatim>\<open>st.error\<close>, if any, and
  the frame returned (empty after an exception).
\<close>

definition load_data ::
  "(string \<Rightarrow> 'v option) \<Rightarrow> load_exn + ('v, 'v pyval) row list
     \<Rightarrow> load_msg option \<times> ('v, 'v) row list" where
  "load_data parse csv =
     (case csv of
        Inl FileNotFoundError \<Rightarrow> (Some file_not_found, [])
      | Inl OtherException \<Rightarrow> (Some load_failed, [])
      | Inr df \<Rightarrow> (None, dropna (map (coerce_row parse) (map replace_row df))))"

subsection \<open>The parametric fit\<close>

record ('v, 'sp) fitted =
  spline_x :: 'sp
  spline_y :: 'sp
  x_data :: "'v list"
  y_data :: "'v list"
  x_var :: "'v pyval"
  y_var :: "'v pyval"

text \<open>
  What a call of \<^verbatim>\<open>get_fitted_spline\<close> does: it shows a warning or an error and returns
  the tuple of six \<^verbatim>\<open>None\<close> (\<open>Skipped\<close>), it returns the fit (\<open>Fitted\<close>), or an
  exception leaves it (\<open>Raised\<close>).
\<close>

datatype ('v, 'e) fit_msg =
  too_few_points "'v pyval"
| spline_failed "'v pyval" int nat 'e

datatype ('v, 'sp, 'e) outcome =
  Skipped "('v, 'e) fit_msg"
| Fitted "('v, 'sp) fitted"
| Raised py_exn

text \<open>\<^verbatim>\<open>df[df['title'] == curve_title]\<close>: the rows of that title, in frame order.\<close>

definition rows_of :: "'v pyval \<Rightarrow> ('v, 'c) row list \<Rightarrow> ('v, 'c) row list" where
  "rows_of curve_title df = filter (\<lambda>r. py_eq (title (attrs r)) curve_title) df"

text \<open>\<^verbatim>\<open>np.arange(n_points)\<close>.\<close>

definition arange :: "nat \<Rightarrow> int list" where
  "arange n = map int [0..<n]"

text \<open>
  \<^verbatim>\<open>get_fitted_spline(curve_title, df)\<close>. \<open>UnivariateSpline\<close> stands for scipy's
  constructor, called as \<^verbatim>\<open>UnivariateSpline(t_data, data, s=0, k=k_spline)\<close>: it gives
  the spline object or the exception it raises, which the \<^verbatim>\<open>except Exception\<close> catches.
  \<^verbatim>\<open>.iloc[0]\<close> raises \<open>IndexError\<close> on an empty selection.
\<close>

definition get_fitted_spline ::
  "(int list \<Rightarrow> 'v list \<Rightarrow> int \<Rightarrow> int \<Rightarrow> 'e + 'sp) \<Rightarrow> 'v pyval \<Rightarrow> ('v, 'v) row list
     \<Rightarrow> ('v, 'sp, 'e) outcome" where
  "get_fitted_spline UnivariateSpline curve_title df =
     (let curve_df = rows_of curve_title df;
          n_points = length curve_df
      in if n_points < 2 then Skipped (too_few_points curve_title)
         else
           (let x_data = map X_Value curve_df;
                y_data = map Y_Value curve_df
            in case curve_df of
                 [] \<Rightarrow> Raised IndexError
               | r0 # _ \<Rightarrow>
                   (let x_var = X_Variable (attrs r0);
                        y_var = Y_Variable (attrs r0);
                        t_data = arange n_points;
                        k_spline = min 3 (int n_points - 1)
                    in case UnivariateSpline t_data x_data 0 k_spline of
                         Inl e \<Rightarrow> Skipped (spline_failed curve_title k_spline n_points e)
                       | Inr sx \<Rightarrow>
                           (case UnivariateSpline t_data y_data 0 k_spline of
                              Inl e \<Rightarrow> Skipped (spline_failed curve_title k_spline n_points e)
                            | Inr sy \<Rightarrow>
                                Fitted \<lparr>spline_x = sx, spline_y = sy,
                                        x_data = x_data, y_data = y_data,
                                        x_var = x_var, y_var = y_var\<rparr>))))"

subsection \<open>Sidebar filters and curve selection\<close>

text \<open>
  The values the select boxes of the sidebar return in one run of the script: a text
  for each attribute filter (\<^verbatim>\<open>"All"\<close> or an option), and the chosen curve title, which
  is a cell of the title column.
\<close>

record 'v sidebar =
  selected_geom :: string
  selected_fiss_elem :: string
  selected_critmat :: string
  selected_fiss_form :: string
  selected_isomat :: string
  selected_modmat :: string
  selected_refl_mat :: string
  selected_reflthick :: string
  selected_x_var :: string
  selected_y_var :: string
  picked_title :: "'v pyval"

text \<open>One filter step: \<^verbatim>\<open>if sel != "All": filtered_df = filtered_df[filtered_df[col] == sel]\<close>.\<close>

definition filter_step ::
  "('v attrs \<Rightarrow> 'v pyval) \<Rightarrow> string \<Rightarrow> ('v, 'c) row list \<Rightarrow> ('v, 'c) row list" where
  "filter_step col sel fdf =
     (if sel \<noteq> ''All'' then filter (\<lambda>r. py_eq (col (attrs r)) (Str sel)) fdf else fdf)"

definition filtered_df :: "'v sidebar \<Rightarrow> ('v, 'c) row list \<Rightarrow> ('v, 'c) row list" where
  "filtered_df ui df =
     filter_step Y_Variable (selected_y_var ui)
      (filter_step X_Variable (selected_x_var ui)
       (filter_step reflthick (selected_reflthick ui)
        (filter_step reflmat (selected_refl_mat ui)
         (filter_step modmat (selected_modmat ui)
          (filter_step isomat (selected_isomat ui)
           (filter_step fiss_form (selected_fiss_form ui)
            (filter_step critmat (selected_critmat ui)
             (filter_step fiss_element (selected_fiss_elem ui)
              (filter_step geometry (selected_geom ui) df)))))))))"

text \<open>pandas' \<^verbatim>\<open>unique()\<close>: the distinct values in order of first appearance.\<close>

definition unique :: "'a list \<Rightarrow> 'a list" where
  "unique xs = rev (remdups (rev xs))"

definition selected_title :: "'v sidebar \<Rightarrow> ('v, 'c) row list \<Rightarrow> 'v pyval option" where
  "selected_title ui df =
     (let curve_titles = unique (map (\<lambda>r. title (attrs r)) (filtered_df ui df))
      in if length curve_titles = 0 then None else Some (picked_title ui))"

text \<open>
  The main script up to the fit (lines 144-221): nothing is fitted when the frame is
  empty or no title is selected; otherwise the fit is asked for with the frame \<open>df\<close>
  as loaded.
\<close>

definition main_fit ::
  "(int list \<Rightarrow> 'v list \<Rightarrow> int \<Rightarrow> int \<Rightarrow> 'e + 'sp) \<Rightarrow> 'v sidebar \<Rightarrow> ('v::zero, 'v) row list
     \<Rightarrow> ('v, 'sp, 'e) outcome option" where
  "main_fit UnivariateSpline ui df =
     (if df = [] then None
      else case selected_title ui df of
             None \<Rightarrow> None
           | Some t \<Rightarrow>
               if truthy t then Some (get_fitted_spline UnivariateSpline t df) else None)"

subsection \<open>The fitted line\<close>

text \<open>
  numpy's \<^verbatim>\<open>linspace(start, stop, num)\<close> with the default \<^verbatim>\<open>endpoint=True\<close>, on exact
  numbers: \<open>num\<close> values \<open>i * step + start\<close>, the last one set to \<open>stop\<close>.
\<close>

definition linspace :: "real \<Rightarrow> real \<Rightarrow> nat \<Rightarrow> real list" where
  "linspace start stop num =
     (let divs = int num - 1;
          delta = stop - start;
          y = (if divs > 0 then map (\<lambda>i. real i * (delta / real_of_int divs) + start) [0..<num]
               else map (\<lambda>i. real i * delta + start) [0..<num])
      in if num > 1 then y[num - 1 := stop] else y)"

text \<open>\<^verbatim>\<open>t_fit = np.linspace(0, len(x_raw) - 1, num)\<close>; the script has \<open>num = 200\<close>.\<close>

definition t_fit :: "'a list \<Rightarrow> nat \<Rightarrow> real list" where
  "t_fit x_raw num = linspace 0 (real_of_int (int (length x_raw) - 1)) num"

text \<open>
  \<^verbatim>\<open>x_fit_raw = spline_x(t_fit)\<close> and \<^verbatim>\<open>y_fit_raw = spline_y(t_fit)\<close>, paired.
  \<open>ev\<close> is the evaluation of a spline object at a parameter value.
\<close>

definition fit_raw :: "('sp \<Rightarrow> real \<Rightarrow> real) \<Rightarrow> 'sp \<Rightarrow> 'sp \<Rightarrow> 'a list \<Rightarrow> nat \<Rightarrow> (real \<times> real) list" where
  "fit_raw ev sx sy x_raw num =
     (let t = t_fit x_raw num;
          x_fit_raw = map (ev sx) t;
          y_fit_raw = map (ev sy) t
      in zip x_fit_raw y_fit_raw)"

text \<open>The frame \<^verbatim>\<open>plot_df_line\<close> of lines 268-278: columns \<open>x\<close>, \<open>y\<close> and \<open>order_col\<close>.\<close>

definition plot_df_line ::
  "('sp \<Rightarrow> real \<Rightarrow> real) \<Rightarrow> 'sp \<Rightarrow> 'sp \<Rightarrow> 'a list \<Rightarrow> real \<Rightarrow> real
     \<Rightarrow> (real \<times> real \<times> real) list" where
  "plot_df_line ev sx sy x_raw x_conv_factor y_conv_factor =
     (let pts = fit_raw ev sx sy x_raw 200;
          x_fit_display = display (map fst pts) x_conv_factor;
          y_fit_display = display (map snd pts) y_conv_factor
      in zip x_fit_display (zip y_fit_display (t_fit x_raw 200)))"

subsection \<open>Example data\<close>

text \<open>
  A small frame, a parser, a sidebar state and a stand-in for the spline library, used
  to run the definitions on concrete inputs. \<open>record_call\<close> is a constructor that never
  fails and returns its own arguments; \<open>lerp\<close> evaluates such a two-point object as
  the straight line through its two values.
\<close>

definition example_attrs :: "string \<Rightarrow> string \<Rightarrow> real attrs" where
  "example_attrs t g =
     \<lparr>title = Str t, geometry = Str g, fiss_element = Str ''U'', critmat = NaN,
      fiss_form = NaN, isomat = NaN, modmat = NaN, reflmat = NaN, reflthick = Num 2.5,
      X_Variable = Str ''Diameter in'', Y_Variable = Str ''critmass kg''\<rparr>"

definition example_row :: "string \<Rightarrow> string \<Rightarrow> 'c \<Rightarrow> 'c \<Rightarrow> (real, 'c) row" where
  "example_row t g x y = \<lparr>attrs = example_attrs t g, X_Value = x, Y_Value = y\<rparr>"

definition example_parse :: "string \<Rightarrow> real option" where
  "example_parse s = (if s = ''1.5'' then Some 1.5 else None)"

definition example_sidebar :: "string \<Rightarrow> real pyval \<Rightarrow> real sidebar" where
  "example_sidebar g t =
     \<lparr>selected_geom = g, selected_fiss_elem = ''All'', selected_critmat = ''All'',
      selected_fiss_form = ''All'', selected_isomat = ''All'', selected_modmat = ''All'',
      selected_refl_mat = ''All'', selected_reflthick = ''All'', selected_x_var = ''All'',
      selected_y_var = ''All'', picked_title = t\<rparr>"

definition example_df :: "(real, real) row list" where
  "example_df =
     [example_row ''A'' ''sphere'' 3 1,
      example_row ''B'' ''slab'' 7 7,
      example_row ''A'' ''sphere'' 1 2,
      example_row ''A'' ''sphere'' 2 5]"

definition record_call ::
  "int list \<Rightarrow> real list \<Rightarrow> int \<Rightarrow> int \<Rightarrow> unit + (int list \<times> real list \<times> int \<times> int)" where
  "record_call t v s k = Inr (t, v, s, k)"

definition lerp :: "int list \<times> real list \<times> int \<times> int \<Rightarrow> real \<Rightarrow> real" where
  "lerp sp u = (case fst (snd sp) of [a, b] \<Rightarrow> a + u * (b - a) | _ \<Rightarrow> 0)"

section \<open>Properties\<close>

lemmas example_defs = example_df_def example_row_def example_attrs_def example_sidebar_def
  example_parse_def record_call_def

subsection \<open>Unit registry and conversion\<close>

lemma CF_keys_distinct: "distinct (map fst CONVERSION_FACTORS)"
  by (simp add: CONVERSION_FACTORS_def)

lemma CF_units_ok:
  "(c, us) \<in> set CONVERSION_FACTORS \<Longrightarrow>
     distinct (map fst us) \<and> (\<forall>(u, v) \<in> set us. 0 < v) \<and> c \<noteq> ''unknown''"
  by (auto simp: CONVERSION_FACTORS_def)

lemma CF_base_first:
  "(c, us) \<in> set CONVERSION_FACTORS \<Longrightarrow>
     us \<noteq> [] \<and> snd (hd us) = 1 \<and> (\<forall>(u, v) \<in> set us. v = 1 \<longrightarrow> u = fst (hd us))"
  by (auto simp: CONVERSION_FACTORS_def)

lemma CF_lookup:
  "(c, us) \<in> set CONVERSION_FACTORS \<Longrightarrow> map_of CONVERSION_FACTORS c = Some us"
  using CF_keys_distinct by (rule map_of_is_SomeI)

lemma factor_of_registered:
  assumes c: "(c, us) \<in> set CONVERSION_FACTORS" and u: "(u, v) \<in> set us"
  shows "factor_of c u = Inr v"
proof -
  have "distinct (map fst us)" using CF_units_ok [OF c] by simp
  then have "map_of us u = Some v" using u by (rule map_of_is_SomeI)
  then show ?thesis by (simp add: factor_of_def CF_lookup [OF c])
qed

text \<open>
  Claim C3. For every category of the table and every two units registered in it, the
  conversion factor from \<open>fromUnit\<close> to \<open>toUnit\<close> is the value of \<open>fromUnit\<close>
  divided by the value of \<open>toUnit\<close>. In the length category the factor from inches
  to centimeters is 2.54, and applied element-wise to \<open>[1.0, 2.0]\<close> it gives
  \<open>[2.54, 5.08]\<close>.
\<close>

theorem conv_factor_quotient:
  assumes c: "(c, us) \<in> set CONVERSION_FACTORS"
    and u1: "(fromUnit, v1) \<in> set us" and u2: "(toUnit, v2) \<in> set us"
  shows "conv_factor c fromUnit toUnit = Inr (v1 / v2)
       \<and> conv_factor ''length'' ''inches (in)'' ''centimeters (cm)'' = Inr 2.54
       \<and> display [1.0, 2.0] 2.54 = [2.54, 5.08]"
proof -
  have pos: "v2 \<noteq> 0" and known: "c \<noteq> ''unknown''"
    using CF_units_ok [OF c] u2 by auto
  have "conv_factor c fromUnit toUnit = Inr (v1 / v2)"
    using pos known
    by (simp add: conv_factor_def conv_quotient_def
        factor_of_registered [OF c u1] factor_of_registered [OF c u2])
  moreover have "conv_factor ''length'' ''inches (in)'' ''centimeters (cm)'' = Inr 2.54"
    by (simp add: conv_factor_def conv_quotient_def factor_of_def CONVERSION_FACTORS_def)
  moreover have "display [1.0, 2.0] 2.54 = [2.54, 5.08]"
    by (simp add: display_def)
  ultimately show ?thesis by simp
qed

theorem conv_factor_quotient_witness:
  "conv_factor ''mass'' ''pounds (lb)'' ''kilograms (kg)'' = Inr (453.592 / 1000.0)"
  using conv_factor_quotient [of "''mass''"
      "[(''grams (g)'', 1.0), (''kilograms (kg)'', 1000.0),
        (''ounces (oz)'', 28.3495), (''pounds (lb)'', 453.592)]"
      "''pounds (lb)''" "453.592" "''kilograms (kg)''" "1000.0"]
  by (simp add: CONVERSION_FACTORS_def)

lemma VC_keys_distinct: "distinct (map fst VARIABLE_TO_CATEGORY)"
  by (simp add: VARIABLE_TO_CATEGORY_def)

lemma VC_all:
  "list_all (\<lambda>(var, (c, u)).
      case map_of CONVERSION_FACTORS c of None \<Rightarrow> False | Some us \<Rightarrow> u \<in> set (map fst us))
    VARIABLE_TO_CATEGORY"
  by (simp add: VARIABLE_TO_CATEGORY_def CONVERSION_FACTORS_def)

lemma VC_bound_ok:
  assumes "(var, (c, u)) \<in> set VARIABLE_TO_CATEGORY"
  shows "\<exists>us. (c, us) \<in> set CONVERSION_FACTORS \<and> u \<in> fst ` set us"
proof -
  have "case map_of CONVERSION_FACTORS c of None \<Rightarrow> False | Some us \<Rightarrow> u \<in> set (map fst us)"
    using VC_all assms unfolding list_all_iff by fast
  then obtain us where "map_of CONVERSION_FACTORS c = Some us" "u \<in> set (map fst us)"
    by (auto split: option.splits)
  then show ?thesis by (auto dest: map_of_SomeD)
qed

text \<open>
  Claim C8. For a variable name that is no key of the binding table, \<open>get_unit_info\<close>
  returns the category \<open>unknown\<close>, the name itself as base unit and the one-element
  unit list holding that name. No exception is raised, the selected unit is the name,
  and the conversion factor is 1.0 without any lookup in the conversion table (the
  lookup alone would raise \<open>KeyError\<close>).
\<close>

theorem get_unit_info_unknown:
  assumes "var_name \<notin> fst ` set VARIABLE_TO_CATEGORY"
  shows "get_unit_info var_name = Inr (''unknown'', var_name, [var_name])
       \<and> axis_units var_name ui_unit = Inr (var_name, 1.0)
       \<and> conv_factor ''unknown'' var_name var_name = Inr 1.0
       \<and> conv_quotient ''unknown'' var_name var_name = Inl KeyError"
proof -
  have "map_of VARIABLE_TO_CATEGORY var_name = None"
    using assms by (simp add: map_of_eq_None_iff)
  then have g: "get_unit_info var_name = Inr (''unknown'', var_name, [var_name])"
    by (simp add: get_unit_info_def)
  have f: "conv_factor ''unknown'' var_name var_name = Inr 1.0"
    by (simp add: conv_factor_def)
  have a: "axis_units var_name ui_unit = Inr (var_name, 1.0)"
    by (simp add: axis_units_def g f)
  have "map_of CONVERSION_FACTORS ''unknown'' = None"
    by (simp add: CONVERSION_FACTORS_def)
  then have q: "conv_quotient ''unknown'' var_name var_name = Inl KeyError"
    by (simp add: conv_quotient_def factor_of_def)
  show ?thesis using g f a q by simp
qed

theorem get_unit_info_unknown_witness:
  "get_unit_info ''Foo bar'' = Inr (''unknown'', ''Foo bar'', [''Foo bar''])
 \<and> axis_units ''Foo bar'' ''centimeters (cm)'' = Inr (''Foo bar'', 1.0)"
  using get_unit_info_unknown [of "''Foo bar''" "''centimeters (cm)''"]
  by (simp add: VARIABLE_TO_CATEGORY_def)

text \<open>
  Claim C9 as stated does not hold: for \<open>Diameter in\<close> the unit returned is
  \<open>inches (in)\<close>, whose factor is 2.54 and which is the third unit of the length
  category; the unit with factor 1.0 is \<open>centimeters (cm)\<close>.
\<close>

theorem get_unit_info_base_counterexample:
  "get_unit_info ''Diameter in'' =
     Inr (''length'', ''inches (in)'',
          [''centimeters (cm)'', ''meters (m)'', ''inches (in)'', ''feet (ft)''])
 \<and> factor_of ''length'' ''inches (in)'' = Inr 2.54
 \<and> factor_of ''length'' ''inches (in)'' \<noteq> Inr 1.0
 \<and> factor_of ''length'' ''centimeters (cm)'' = Inr 1.0"
  by (simp add: get_unit_info_def factor_of_def VARIABLE_TO_CATEGORY_def CONVERSION_FACTORS_def)

text \<open>
  Claim C9, amended. For a variable name bound in the table to a category and a native
  unit, \<open>get_unit_info\<close> returns that category, that native unit (a unit registered
  in the category, whose factor need not be 1.0) and the full list of the category's
  unit names in table order. The first unit of that list has factor 1.0 and is the
  only unit of the category with factor 1.0.
\<close>

theorem get_unit_info_known:
  assumes b: "(var_name, (category, native_unit)) \<in> set VARIABLE_TO_CATEGORY"
  shows "\<exists>units. map_of CONVERSION_FACTORS category = Some units
          \<and> get_unit_info var_name = Inr (category, native_unit, map fst units)
          \<and> native_unit \<in> set (map fst units)
          \<and> factor_of category (hd (map fst units)) = Inr 1.0
          \<and> (\<forall>(u, v) \<in> set units. v = 1.0 \<longrightarrow> u = hd (map fst units))"
proof -
  obtain us where c: "(category, us) \<in> set CONVERSION_FACTORS" and u: "native_unit \<in> fst ` set us"
    using VC_bound_ok [OF b] by blast
  have m: "map_of VARIABLE_TO_CATEGORY var_name = Some (category, native_unit)"
    using VC_keys_distinct b by (rule map_of_is_SomeI)
  have bf: "us \<noteq> []" "snd (hd us) = 1" "\<forall>(u, v) \<in> set us. v = 1 \<longrightarrow> u = fst (hd us)"
    using CF_base_first [OF c] by auto
  have hdm: "hd (map fst us) = fst (hd us)" using bf(1) by (simp add: hd_map)
  have "(fst (hd us), 1) \<in> set us" using bf(1,2) by (metis hd_in_set prod.collapse)
  then have h: "factor_of category (hd (map fst us)) = Inr 1.0"
    using factor_of_registered [OF c] hdm by simp
  have g: "get_unit_info var_name = Inr (category, native_unit, map fst us)"
    by (simp add: get_unit_info_def m CF_lookup [OF c])
  show ?thesis
    using CF_lookup [OF c] g u h bf(3) hdm by (intro exI [of _ us]) auto
qed

theorem get_unit_info_known_witness:
  "get_unit_info ''volume gal'' =
     Inr (''volume'', ''gallons (US)'',
          [''cm^3 (cc)'', ''liters (L)'', ''in^3'', ''ft^3'', ''gallons (US)''])"
  using get_unit_info_known [of "''volume gal''" "''volume''" "''gallons (US)''"]
  by (simp add: VARIABLE_TO_CATEGORY_def CONVERSION_FACTORS_def)

subsection \<open>Loading drops the rows without two numbers\<close>

lemma py_eq_imp_eq: "py_eq a b \<Longrightarrow> a = b"
  by (cases a; cases b) simp_all

lemma dropna_append: "dropna (rs @ rs') = dropna rs @ dropna rs'"
  by (induction rs) (simp_all split: option.splits)

lemma dropna_filter:
  "map (\<lambda>r. (attrs r, Some (X_Value r), Some (Y_Value r))) (dropna rs)
     = filter (\<lambda>(a, x, y). x \<noteq> None \<and> y \<noteq> None) (map (\<lambda>r. (attrs r, X_Value r, Y_Value r)) rs)"
  by (induction rs) (auto split: option.splits)

lemma coerce_row_sel [simp]:
  "attrs (coerce_row parse r) = attrs r"
  "X_Value (coerce_row parse r) = to_numeric parse (X_Value r)"
  "Y_Value (coerce_row parse r) = to_numeric parse (Y_Value r)"
  by (simp_all add: coerce_row_def)

lemma replace_row_sel [simp]:
  "X_Value (replace_row r) = replace_nan (X_Value r)"
  "Y_Value (replace_row r) = replace_nan (Y_Value r)"
  "title (attrs (replace_row r)) = replace_nan (title (attrs r))"
  by (simp_all add: replace_row_def)

lemma load_data_append:
  "snd (load_data parse (Inr (pre @ post)))
     = snd (load_data parse (Inr pre)) @ snd (load_data parse (Inr post))"
  by (simp add: load_data_def dropna_append)

lemma load_data_single:
  "snd (load_data parse (Inr [r])) =
     (case (to_numeric parse (replace_nan (X_Value r)), to_numeric parse (replace_nan (Y_Value r))) of
        (Some x, Some y) \<Rightarrow> [\<lparr>attrs = attrs (replace_row r), X_Value = x, Y_Value = y\<rparr>]
      | _ \<Rightarrow> [])"
  by (simp add: load_data_def split: option.splits)

lemma load_data_msg: "fst (load_data parse (Inr raw)) = None"
  by (simp add: load_data_def)

lemma set_unique: "set (unique xs) = set xs"
  by (simp add: unique_def)

lemma load_data_titles:
  "r' \<in> set (snd (load_data parse (Inr raw))) \<Longrightarrow>
     \<exists>r \<in> set raw. title (attrs r') = replace_nan (title (attrs r))
        \<and> to_numeric parse (replace_nan (X_Value r)) \<noteq> None
        \<and> to_numeric parse (replace_nan (Y_Value r)) \<noteq> None"
proof (induction raw)
  case Nil
  then show ?case by (simp add: load_data_def)
next
  case (Cons a raw)
  have "snd (load_data parse (Inr (a # raw)))
      = snd (load_data parse (Inr [a])) @ snd (load_data parse (Inr raw))"
    using load_data_append [of parse "[a]" raw] by simp
  then consider "r' \<in> set (snd (load_data parse (Inr [a])))"
    | "r' \<in> set (snd (load_data parse (Inr raw)))"
    using Cons.prems by auto
  then show ?case
  proof cases
    case 1
    then show ?thesis by (auto simp: load_data_single split: option.splits)
  next
    case 2
    then show ?thesis using Cons.IH by auto
  qed
qed

lemma load_data_cons3:
  "snd (load_data parse (Inr (pre @ r # post)))
      = snd (load_data parse (Inr pre)) @ snd (load_data parse (Inr [r]))
        @ snd (load_data parse (Inr post))"
  using load_data_append [of parse pre "[r] @ post"] load_data_append [of parse "[r]" post]
  by simp

lemma load_data_absent:
  assumes "\<forall>r' \<in> set raw. replace_nan (title (attrs r')) = t
          \<longrightarrow> to_numeric parse (replace_nan (X_Value r')) = None
              \<or> to_numeric parse (replace_nan (Y_Value r')) = None"
  shows "t \<notin> set (map (\<lambda>r. title (attrs r)) (snd (load_data parse (Inr raw))))"
proof
  assume "t \<in> set (map (\<lambda>r. title (attrs r)) (snd (load_data parse (Inr raw))))"
  then obtain r' where r': "r' \<in> set (snd (load_data parse (Inr raw)))" "title (attrs r') = t"
    by auto
  from load_data_titles [OF r'(1)] r'(2) assms show False by metis
qed

lemma rows_of_absent:
  assumes "t \<notin> set (map (\<lambda>r. title (attrs r)) df)"
  shows "rows_of t df = []"
proof -
  have "\<not> py_eq (title (attrs r)) t" if "r \<in> set df" for r
    using assms that py_eq_imp_eq [of "title (attrs r)" t] by auto
  then show ?thesis by (simp add: rows_of_def)
qed

text \<open>
  The cells that \<open>to_numeric\<close> turns into NaN after the replacement: the missing
  ones, the text \<^verbatim>\<open>nan\<close>, and the texts that are no number.
\<close>

lemma to_numeric_None_iff:
  "to_numeric parse (replace_nan c) = None
     \<longleftrightarrow> c = NaN \<or> (\<exists>s. c = Str s \<and> (s = ''nan'' \<or> parse s = None))"
  by (cases c) (auto simp: to_numeric_def replace_nan_def)

text \<open>
  Claim C6. A row whose \<open>X_Value\<close> or \<open>Y_Value\<close> is missing or is no number
  (\<open>to_numeric\<close> gives \<open>None\<close> for it) is dropped by \<open>load_data\<close>: the frame loaded from a file with such a row is the frame
  loaded from the file without it. A row with two numeric values is kept, with these
  values, between the rows loaded before and after it. A title all of whose rows are
  dropped is not among the curve titles of the loaded frame and has no rows there; the
  load reports no error.
\<close>

theorem load_data_drops_rows:
  "((to_numeric parse (replace_nan (X_Value r)) = None
       \<or> to_numeric parse (replace_nan (Y_Value r)) = None)
      \<longrightarrow> load_data parse (Inr (pre @ r # post)) = load_data parse (Inr (pre @ post)))
 \<and> (to_numeric parse (replace_nan (X_Value r)) = Some x
       \<and> to_numeric parse (replace_nan (Y_Value r)) = Some y
      \<longrightarrow> snd (load_data parse (Inr (pre @ r # post)))
            = snd (load_data parse (Inr pre))
              @ \<lparr>attrs = attrs (replace_row r), X_Value = x, Y_Value = y\<rparr>
              # snd (load_data parse (Inr post)))
 \<and> ((\<forall>r' \<in> set raw. replace_nan (title (attrs r')) = t
          \<longrightarrow> to_numeric parse (replace_nan (X_Value r')) = None
              \<or> to_numeric parse (replace_nan (Y_Value r')) = None)
      \<longrightarrow> t \<notin> set (unique (map (\<lambda>r. title (attrs r)) (snd (load_data parse (Inr raw)))))
          \<and> rows_of t (snd (load_data parse (Inr raw))) = []
          \<and> fst (load_data parse (Inr raw)) = None)"
proof (intro conjI impI)
  assume bad: "to_numeric parse (replace_nan (X_Value r)) = None
       \<or> to_numeric parse (replace_nan (Y_Value r)) = None"
  then have "snd (load_data parse (Inr [r])) = []"
    by (auto simp: load_data_single split: option.splits)
  then have "snd (load_data parse (Inr (pre @ r # post))) = snd (load_data parse (Inr (pre @ post)))"
    using load_data_cons3 [of parse pre r post] load_data_append [of parse pre post] by simp
  then show "load_data parse (Inr (pre @ r # post)) = load_data parse (Inr (pre @ post))"
    by (simp add: prod_eq_iff load_data_msg)
next
  assume "to_numeric parse (replace_nan (X_Value r)) = Some x
       \<and> to_numeric parse (replace_nan (Y_Value r)) = Some y"
  then have "snd (load_data parse (Inr [r]))
        = [\<lparr>attrs = attrs (replace_row r), X_Value = x, Y_Value = y\<rparr>]"
    by (simp add: load_data_single)
  then show "snd (load_data parse (Inr (pre @ r # post)))
            = snd (load_data parse (Inr pre))
              @ \<lparr>attrs = attrs (replace_row r), X_Value = x, Y_Value = y\<rparr>
              # snd (load_data parse (Inr post))"
    using load_data_cons3 [of parse pre r post] by simp
next
  assume all_bad: "\<forall>r' \<in> set raw. replace_nan (title (attrs r')) = t
          \<longrightarrow> to_numeric parse (replace_nan (X_Value r')) = None
              \<or> to_numeric parse (replace_nan (Y_Value r')) = None"
  have absent: "t \<notin> set (map (\<lambda>r. title (attrs r)) (snd (load_data parse (Inr raw))))"
    using all_bad by (rule load_data_absent)
  then show "t \<notin> set (unique (map (\<lambda>r. title (attrs r)) (snd (load_data parse (Inr raw)))))"
    unfolding set_unique .
  show "rows_of t (snd (load_data parse (Inr raw))) = []"
    using absent by (rule rows_of_absent)
  show "fst (load_data parse (Inr raw)) = None" by (rule load_data_msg)
qed

theorem load_data_drops_rows_witness:
  "load_data example_parse
      (Inr [example_row ''A'' ''sphere'' (Num 3) (Num 1),
            example_row ''A'' ''sphere'' (Str ''abc'') (Num 9),
            example_row ''A'' ''sphere'' (Str ''1.5'') (Num 2)])
     = load_data example_parse
      (Inr [example_row ''A'' ''sphere'' (Num 3) (Num 1),
            example_row ''A'' ''sphere'' (Str ''1.5'') (Num 2)])
 \<and> snd (load_data example_parse
      (Inr [example_row ''A'' ''sphere'' (Str ''1.5'') (Num 2)]))
     = [example_row ''A'' ''sphere'' 1.5 2]
 \<and> Str ''C'' \<notin> set (unique (map (\<lambda>r. title (attrs r))
      (snd (load_data example_parse
        (Inr [example_row ''A'' ''sphere'' (Num 3) (Num 1),
              example_row ''C'' ''slab'' NaN (Num 4),
              example_row ''C'' ''slab'' (Num 4) (Str ''nan'')])))))"
proof -
  have empty: "snd (load_data example_parse (Inr [])) = []"
    by (simp add: load_data_def)
  from load_data_drops_rows [where parse = example_parse
      and r = "example_row ''A'' ''sphere'' (Str ''abc'') (Num 9)"
      and pre = "[example_row ''A'' ''sphere'' (Num 3) (Num 1)]"
      and post = "[example_row ''A'' ''sphere'' (Str ''1.5'') (Num 2)]"]
  have p1: "load_data example_parse
      (Inr [example_row ''A'' ''sphere'' (Num 3) (Num 1),
            example_row ''A'' ''sphere'' (Str ''abc'') (Num 9),
            example_row ''A'' ''sphere'' (Str ''1.5'') (Num 2)])
     = load_data example_parse
      (Inr [example_row ''A'' ''sphere'' (Num 3) (Num 1),
            example_row ''A'' ''sphere'' (Str ''1.5'') (Num 2)])"
    by (simp add: to_numeric_def replace_nan_def example_defs)
  from load_data_drops_rows [where parse = example_parse
      and r = "example_row ''A'' ''sphere'' (Str ''1.5'') (Num 2)"
      and x = "1.5" and y = "2" and pre = "[]" and post = "[]"]
  have p2: "snd (load_data example_parse
      (Inr [example_row ''A'' ''sphere'' (Str ''1.5'') (Num 2)]))
     = [example_row ''A'' ''sphere'' 1.5 2]"
    by (simp add: empty to_numeric_def replace_nan_def replace_row_def example_defs)
  from load_data_drops_rows [where parse = example_parse and t = "Str ''C''"
      and raw = "[example_row ''A'' ''sphere'' (Num 3) (Num 1),
              example_row ''C'' ''slab'' NaN (Num 4),
              example_row ''C'' ''slab'' (Num 4) (Str ''nan'')]"]
  have p3: "Str ''C'' \<notin> set (unique (map (\<lambda>r. title (attrs r))
      (snd (load_data example_parse
        (Inr [example_row ''A'' ''sphere'' (Num 3) (Num 1),
              example_row ''C'' ''slab'' NaN (Num 4),
              example_row ''C'' ''slab'' (Num 4) (Str ''nan'')])))))"
    by (simp add: to_numeric_def replace_nan_def example_defs)
  show ?thesis using p1 p2 p3 by blast
qed

subsection \<open>The fit of one curve\<close>

lemma get_fitted_spline_cases:
  fixes U :: "int list \<Rightarrow> 'v list \<Rightarrow> int \<Rightarrow> int \<Rightarrow> 'e + 'sp"
  assumes n: "2 \<le> length (rows_of t df)"
  defines "n \<equiv> length (rows_of t df)"
  defines "k \<equiv> min 3 (int n - 1)"
  defines "xs \<equiv> map X_Value (rows_of t df)"
  defines "ys \<equiv> map Y_Value (rows_of t df)"
  shows "get_fitted_spline U t df =
     (case U (arange n) xs 0 k of
        Inl e \<Rightarrow> Skipped (spline_failed t k n e)
      | Inr sx \<Rightarrow>
          (case U (arange n) ys 0 k of
             Inl e \<Rightarrow> Skipped (spline_failed t k n e)
           | Inr sy \<Rightarrow>
               Fitted \<lparr>spline_x = sx, spline_y = sy, x_data = xs, y_data = ys,
                       x_var = X_Variable (attrs (hd (rows_of t df))),
                       y_var = Y_Variable (attrs (hd (rows_of t df)))\<rparr>))"
proof -
  have ne: "rows_of t df \<noteq> []" and ge: "\<not> length (rows_of t df) < 2"
    using n by auto
  show ?thesis
    unfolding get_fitted_spline_def Let_def n_def k_def xs_def ys_def
    by (simp only: ge ne list.case_eq_if if_False)
qed

lemma get_fitted_spline_few:
  assumes "length (rows_of t df) < 2"
  shows "get_fitted_spline U t df = Skipped (too_few_points t)"
  unfolding get_fitted_spline_def Let_def by (simp only: assms if_True)

lemma get_fitted_spline_Fitted:
  assumes "get_fitted_spline U t df = Fitted f"
  shows "2 \<le> length (rows_of t df)
       \<and> x_data f = map X_Value (rows_of t df)
       \<and> y_data f = map Y_Value (rows_of t df)
       \<and> x_var f = X_Variable (attrs (hd (rows_of t df)))
       \<and> y_var f = Y_Variable (attrs (hd (rows_of t df)))
       \<and> U (arange (length (rows_of t df))) (x_data f) 0
             (min 3 (int (length (rows_of t df)) - 1)) = Inr (spline_x f)
       \<and> U (arange (length (rows_of t df))) (y_data f) 0
             (min 3 (int (length (rows_of t df)) - 1)) = Inr (spline_y f)"
proof (cases "length (rows_of t df) < 2")
  case True
  then show ?thesis using assms by (simp add: get_fitted_spline_few)
next
  case False
  then have n: "2 \<le> length (rows_of t df)" by simp
  show ?thesis
    using assms n unfolding get_fitted_spline_cases [OF n]
    by (auto split: sum.splits)
qed

text \<open>
  Claim C4. For a curve with \<open>n \<ge> 2\<close> rows the spline constructor is called with
  degree \<open>min 3 (n - 1)\<close>: a returned fit holds the two objects built with that
  degree, and a failed construction is reported with that degree and \<open>n\<close>. The
  degree is at most \<open>n - 1\<close>; it is 1 for two points, 2 for three and 3 for four
  or more.
\<close>

theorem spline_degree:
  fixes U :: "int list \<Rightarrow> 'v list \<Rightarrow> int \<Rightarrow> int \<Rightarrow> 'e + 'sp"
  assumes n: "2 \<le> length (rows_of t df)"
  shows "(case get_fitted_spline U t df of
            Fitted f \<Rightarrow>
              U (arange (length (rows_of t df))) (x_data f) 0
                (min 3 (int (length (rows_of t df)) - 1)) = Inr (spline_x f)
            \<and> U (arange (length (rows_of t df))) (y_data f) 0
                (min 3 (int (length (rows_of t df)) - 1)) = Inr (spline_y f)
          | Skipped m \<Rightarrow>
              (\<exists>e. m = spline_failed t (min 3 (int (length (rows_of t df)) - 1))
                         (length (rows_of t df)) e)
          | Raised e \<Rightarrow> False)
       \<and> min 3 (int (length (rows_of t df)) - 1) \<le> int (length (rows_of t df)) - 1
       \<and> (length (rows_of t df) = 2 \<longrightarrow> min 3 (int (length (rows_of t df)) - 1) = 1)
       \<and> (length (rows_of t df) = 3 \<longrightarrow> min 3 (int (length (rows_of t df)) - 1) = 2)
       \<and> (4 \<le> length (rows_of t df) \<longrightarrow> min 3 (int (length (rows_of t df)) - 1) = 3)"
proof -
  have a: "min 3 (int (length (rows_of t df)) - 1) \<le> int (length (rows_of t df)) - 1"
    by simp
  have b: "length (rows_of t df) = 2 \<longrightarrow> min 3 (int (length (rows_of t df)) - 1) = 1"
    "length (rows_of t df) = 3 \<longrightarrow> min 3 (int (length (rows_of t df)) - 1) = 2"
    "4 \<le> length (rows_of t df) \<longrightarrow> min 3 (int (length (rows_of t df)) - 1) = 3"
    by auto
  have c: "case get_fitted_spline U t df of
            Fitted f \<Rightarrow>
              U (arange (length (rows_of t df))) (x_data f) 0
                (min 3 (int (length (rows_of t df)) - 1)) = Inr (spline_x f)
            \<and> U (arange (length (rows_of t df))) (y_data f) 0
                (min 3 (int (length (rows_of t df)) - 1)) = Inr (spline_y f)
          | Skipped m \<Rightarrow>
              (\<exists>e. m = spline_failed t (min 3 (int (length (rows_of t df)) - 1))
                         (length (rows_of t df)) e)
          | Raised e \<Rightarrow> False"
    unfolding get_fitted_spline_cases [OF n] by (simp split: sum.splits)
  show ?thesis using a b c by blast
qed

theorem spline_degree_witness:
  "(case get_fitted_spline record_call (Str ''A'') example_df of
      Fitted f \<Rightarrow> spline_x f = ([0, 1, 2], x_data f, 0, 2)
                 \<and> spline_y f = ([0, 1, 2], y_data f, 0, 2)
    | Skipped m \<Rightarrow> m = spline_failed (Str ''A'') 2 3 ()
    | Raised e \<Rightarrow> False)"
proof -
  have len: "length (rows_of (Str ''A'') example_df) = 3"
    by (simp add: rows_of_def example_defs)
  have ar: "arange 3 = [0, 1, 2]"
    by (simp add: arange_def upt_rec)
  have "2 \<le> length (rows_of (Str ''A'') example_df)" by (simp add: len)
  from spline_degree [OF this, of record_call] show ?thesis
    by (auto simp: len ar record_call_def split: outcome.splits)
qed

text \<open>
  Claim C5. For a curve with fewer than two rows \<open>get_fitted_spline\<close> shows the
  too-few-points warning and returns the empty result, whatever the spline constructor
  is; no exception leaves it, and the main script gets this result as a value.
\<close>

theorem too_few_points_skipped:
  assumes "length (rows_of t df) < 2"
  shows "get_fitted_spline U t df = Skipped (too_few_points t)
       \<and> (\<forall>e. get_fitted_spline U t df \<noteq> Raised e)
       \<and> (df \<noteq> [] \<and> selected_title ui df = Some t \<and> truthy t
            \<longrightarrow> main_fit U ui df = Some (Skipped (too_few_points t)))"
  using assms by (simp add: get_fitted_spline_few main_fit_def)

theorem too_few_points_skipped_witness:
  "get_fitted_spline record_call (Str ''B'') example_df = Skipped (too_few_points (Str ''B''))
 \<and> main_fit record_call (example_sidebar ''slab'' (Str ''B'')) example_df
      = Some (Skipped (too_few_points (Str ''B'')))
 \<and> get_fitted_spline record_call (Str ''C'') example_df = Skipped (too_few_points (Str ''C''))"
proof -
  have b: "length (rows_of (Str ''B'') example_df) < 2"
    and c: "length (rows_of (Str ''C'') example_df) < 2"
    by (simp_all add: rows_of_def example_defs)
  have s: "selected_title (example_sidebar ''slab'' (Str ''B'')) example_df = Some (Str ''B'')"
    by (simp add: selected_title_def filtered_df_def filter_step_def unique_def example_defs)
  have ne: "example_df \<noteq> []" by (simp add: example_df_def)
  from too_few_points_skipped [OF b, of record_call "example_sidebar ''slab'' (Str ''B'')"]
    too_few_points_skipped [OF c, of record_call "example_sidebar ''slab'' (Str ''B'')"]
    s ne
  show ?thesis by simp
qed

subsection \<open>Filters, selection and order\<close>

lemma filter_step_subseq: "subseq (filter_step col sel fdf) fdf"
  by (simp add: filter_step_def)

lemma filter_step_Nil: "filter_step col sel [] = []"
  by (simp add: filter_step_def)

lemma filter_step_subseq_trans: "subseq fdf df \<Longrightarrow> subseq (filter_step col sel fdf) df"
  using filter_step_subseq subseq_order.order_trans by blast

lemma filtered_df_subseq: "subseq (filtered_df ui df) df"
  unfolding filtered_df_def
  by (intro filter_step_subseq_trans) (rule subseq_order.order_refl)

lemma filtered_df_Nil: "filtered_df ui [] = []"
  by (simp add: filtered_df_def filter_step_Nil)

lemma selected_title_Nil: "selected_title ui [] = None"
  by (simp add: selected_title_def filtered_df_Nil unique_def)

lemma rows_of_idem: "rows_of t (rows_of t df) = rows_of t df"
  by (simp add: rows_of_def)

lemma get_fitted_spline_rows:
  assumes "rows_of t df = rows_of t df'"
  shows "get_fitted_spline U t df = get_fitted_spline U t df'"
  unfolding get_fitted_spline_def by (simp only: assms)

text \<open>
  Claim C10. The fit of the selected title is computed from the frame as loaded: two
  runs with the same frame and the same selected title give the same result whatever
  the attribute filters of the sidebar are, and the result depends only on the rows of
  the frame that carry this title.
\<close>

theorem fit_ignores_filters:
  assumes s1: "selected_title ui1 df = Some t" and s2: "selected_title ui2 df = Some t"
  shows "main_fit U ui1 df = main_fit U ui2 df
       \<and> (truthy t \<longrightarrow> main_fit U ui1 df = Some (get_fitted_spline U t df))
       \<and> get_fitted_spline U t df = get_fitted_spline U t (rows_of t df)
       \<and> (\<forall>df'. rows_of t df' = rows_of t df
              \<longrightarrow> get_fitted_spline U t df' = get_fitted_spline U t df)"
proof -
  have ne: "df \<noteq> []"
  proof
    assume "df = []"
    with s1 show False by (simp add: selected_title_Nil)
  qed
  have a: "main_fit U ui1 df = main_fit U ui2 df"
    by (simp add: main_fit_def s1 s2)
  have b: "truthy t \<longrightarrow> main_fit U ui1 df = Some (get_fitted_spline U t df)"
    using ne by (simp add: main_fit_def s1)
  have c: "get_fitted_spline U t df = get_fitted_spline U t (rows_of t df)"
    by (rule get_fitted_spline_rows) (simp add: rows_of_idem)
  have d: "\<forall>df'. rows_of t df' = rows_of t df
              \<longrightarrow> get_fitted_spline U t df' = get_fitted_spline U t df"
    using get_fitted_spline_rows by blast
  show ?thesis using a b c d by blast
qed

theorem fit_ignores_filters_witness:
  "main_fit record_call (example_sidebar ''All'' (Str ''A'')) example_df
     = main_fit record_call (example_sidebar ''sphere'' (Str ''A'')) example_df
 \<and> main_fit record_call (example_sidebar ''sphere'' (Str ''A'')) example_df
     = Some (get_fitted_spline record_call (Str ''A'') example_df)"
proof -
  have s1: "selected_title (example_sidebar ''All'' (Str ''A'')) example_df = Some (Str ''A'')"
    by (simp add: selected_title_def filtered_df_def filter_step_def unique_def example_defs)
  have s2: "selected_title (example_sidebar ''sphere'' (Str ''A'')) example_df = Some (Str ''A'')"
    by (simp add: selected_title_def filtered_df_def filter_step_def unique_def example_defs)
  have t: "truthy (Str ''A'' :: real pyval)" by simp
  from fit_ignores_filters [OF s1 s2, of record_call] t show ?thesis by metis
qed

lemma zip_map_same: "zip (map f xs) (map g xs) = map (\<lambda>x. (f x, g x)) xs"
  by (induction xs) simp_all

lemma load_data_rows:
  "map (\<lambda>r. (attrs r, Some (X_Value r), Some (Y_Value r))) (snd (load_data parse (Inr raw)))
     = filter (\<lambda>(a, x, y). x \<noteq> None \<and> y \<noteq> None)
         (map (\<lambda>r. (attrs (replace_row r), to_numeric parse (replace_nan (X_Value r)),
                      to_numeric parse (replace_nan (Y_Value r)))) raw)"
  by (simp add: load_data_def dropna_filter comp_def)

text \<open>
  Claim C7. The samples of a fitted curve are the values of the rows of its title in
  frame order, so they form a subsequence of the frame; the spline objects are built
  over the parameter values \<open>0, 1, \<dots>, n - 1\<close>, one per sample in that order.
  The sidebar filters and the loader keep the order of the rows they keep.
\<close>

theorem sample_order_preserved:
  assumes fit: "get_fitted_spline U t df = Fitted f"
  shows "x_data f = map X_Value (filter (\<lambda>r. py_eq (title (attrs r)) t) df)
       \<and> y_data f = map Y_Value (filter (\<lambda>r. py_eq (title (attrs r)) t) df)
       \<and> subseq (zip (x_data f) (y_data f)) (map (\<lambda>r. (X_Value r, Y_Value r)) df)
       \<and> U (map int [0..<length (x_data f)]) (x_data f) 0
            (min 3 (int (length (x_data f)) - 1)) = Inr (spline_x f)
       \<and> U (map int [0..<length (y_data f)]) (y_data f) 0
            (min 3 (int (length (y_data f)) - 1)) = Inr (spline_y f)
       \<and> subseq (filtered_df ui df) df
       \<and> map (\<lambda>r. (attrs r, Some (X_Value r), Some (Y_Value r)))
              (snd (load_data parse (Inr raw)))
           = filter (\<lambda>(a, x, y). x \<noteq> None \<and> y \<noteq> None)
               (map (\<lambda>r. (attrs (replace_row r), to_numeric parse (replace_nan (X_Value r)),
                            to_numeric parse (replace_nan (Y_Value r)))) raw)"
proof -
  note F = get_fitted_spline_Fitted [OF fit]
  have x: "x_data f = map X_Value (filter (\<lambda>r. py_eq (title (attrs r)) t) df)"
    and y: "y_data f = map Y_Value (filter (\<lambda>r. py_eq (title (attrs r)) t) df)"
    using F by (simp_all add: rows_of_def)
  have lx: "length (x_data f) = length (rows_of t df)"
    and ly: "length (y_data f) = length (rows_of t df)"
    using F by simp_all
  have z: "zip (x_data f) (y_data f)
      = map (\<lambda>r. (X_Value r, Y_Value r)) (filter (\<lambda>r. py_eq (title (attrs r)) t) df)"
    unfolding x y by (rule zip_map_same)
  have s: "subseq (zip (x_data f) (y_data f)) (map (\<lambda>r. (X_Value r, Y_Value r)) df)"
    unfolding z by (intro subseq_map subseq_filter_left)
  have ux: "U (map int [0..<length (x_data f)]) (x_data f) 0
            (min 3 (int (length (x_data f)) - 1)) = Inr (spline_x f)"
    using F unfolding lx arange_def by blast
  have uy: "U (map int [0..<length (y_data f)]) (y_data f) 0
            (min 3 (int (length (y_data f)) - 1)) = Inr (spline_y f)"
    using F unfolding ly arange_def by blast
  show ?thesis
    using x y s ux uy filtered_df_subseq [of ui df] load_data_rows [of parse raw] by blast
qed

theorem sample_order_preserved_witness:
  "zip [3, 1, 2] [1, 2, 5 :: real]
     = map (\<lambda>r. (X_Value r, Y_Value r))
         (filter (\<lambda>r. py_eq (title (attrs r)) (Str ''A'')) example_df)
 \<and> subseq [(3, 1), (1, 2), (2, 5 :: real)] (map (\<lambda>r. (X_Value r, Y_Value r)) example_df)
 \<and> record_call (map int [0..<3]) [3, 1, 2] 0 2 = Inr ([0, 1, 2], [3, 1, 2], 0, 2)"
proof -
  have fit: "get_fitted_spline record_call (Str ''A'') example_df =
      Fitted \<lparr>spline_x = ([0, 1, 2], [3, 1, 2], 0, 2), spline_y = ([0, 1, 2], [1, 2, 5], 0, 2),
              x_data = [3, 1, 2], y_data = [1, 2, 5],
              x_var = Str ''Diameter in'', y_var = Str ''critmass kg''\<rparr>"
    by (simp add: get_fitted_spline_def rows_of_def arange_def upt_rec Let_def example_defs)
  from sample_order_preserved [OF fit, of "example_sidebar ''All'' (Str ''A'')" example_parse "[]"]
  show ?thesis by (simp add: zip_map_same record_call_def upt_rec)
qed

subsection \<open>The resampled line\<close>

lemma linspace_length: "length (linspace a b num) = num"
  by (simp add: linspace_def Let_def)

lemma linspace_nth:
  assumes "2 \<le> num" "i < num"
  shows "linspace a b num ! i = real i * ((b - a) / (real num - 1)) + a"
proof -
  have d: "real_of_int (int num - 1) = real num - 1" by simp
  have pos: "real num - 1 \<noteq> 0" using assms(1) by auto
  show ?thesis
  proof (cases "i = num - 1")
    case True
    then have "real i = real num - 1" using assms(1) by (simp add: of_nat_diff)
    then have "real i * ((b - a) / (real num - 1)) + a = b" using pos by simp
    then show ?thesis using True assms by (simp add: linspace_def Let_def)
  next
    case False
    then show ?thesis using assms by (simp add: linspace_def Let_def d del: of_int_diff)
  qed
qed

lemma linspace_strict:
  assumes "2 \<le> num" "a < b"
  shows "sorted_wrt (<) (linspace a b num)"
proof -
  have pos: "0 < (b - a) / (real num - 1)" using assms by simp
  show ?thesis
    unfolding sorted_wrt_iff_nth_less
  proof (intro allI impI)
    fix i j assume "i < j" "j < length (linspace a b num)"
    then have j: "j < num" and i: "i < num" by (simp_all add: linspace_length)
    have "real i * ((b - a) / (real num - 1)) < real j * ((b - a) / (real num - 1))"
      using \<open>i < j\<close> pos by (intro mult_strict_right_mono) simp_all
    then show "linspace a b num ! i < linspace a b num ! j"
      by (simp add: linspace_nth [OF assms(1)] i j)
  qed
qed

lemma t_fit_length: "length (t_fit x_raw num) = num"
  by (simp add: t_fit_def linspace_length)

lemma fit_raw_length: "length (fit_raw ev sx sy x_raw num) = num"
  by (simp add: fit_raw_def Let_def t_fit_length)

lemma plot_df_line_length: "length (plot_df_line ev sx sy x_raw fx fy) = 200"
  by (simp add: plot_df_line_def Let_def display_def fit_raw_length t_fit_length)

lemma plot_df_line_order_col:
  "map (\<lambda>r. snd (snd r)) (plot_df_line ev sx sy x_raw fx fy) = t_fit x_raw 200"
proof -
  have h: "map (\<lambda>r. snd (snd r)) (zip a (zip b c)) = c"
    if "length a = length c" "length b = length c" for a b c :: "real list"
  proof -
    have "map (\<lambda>r. snd (snd r)) (zip a (zip b c)) = map snd (map snd (zip a (zip b c)))"
      by simp
    also have "\<dots> = map snd (zip b c)" using that by (simp add: map_snd_zip)
    also have "\<dots> = c" using that by (simp add: map_snd_zip)
    finally show ?thesis .
  qed
  show ?thesis
    unfolding plot_df_line_def Let_def
    by (rule h) (simp_all add: display_def fit_raw_length t_fit_length)
qed

lemma plot_df_line_unit:
  "map (\<lambda>(x, y, t). (x, y)) (plot_df_line ev sx sy x_raw 1 1) = fit_raw ev sx sy x_raw 200"
proof -
  have "map (\<lambda>(x, y, t). (x, y)) (zip (map fst p) (zip (map snd p) c)) = p"
    if "length c = length p" for p :: "(real \<times> real) list" and c :: "real list"
    using that by (induction p c rule: list_induct2') auto
  then show ?thesis
    by (simp add: plot_df_line_def Let_def display_def fit_raw_length t_fit_length)
qed

text \<open>
  Claim C2. For a curve of \<open>n \<ge> 2\<close> samples whose two interpolants pass through
  the samples at the integer parameters, and for every \<open>num \<ge> 2\<close>, the resampled
  line has exactly \<open>num\<close> points: the two interpolants evaluated at \<open>num\<close> evenly
  spaced, strictly increasing parameter values from \<open>0\<close> to \<open>n - 1\<close>. Its first
  point is the first sample and its last point is the last sample. The frame plotted
  by the script is this line at \<open>num = 200\<close>, with the parameter as order column.
\<close>

theorem resample_points:
  assumes num: "2 \<le> num" and n: "2 \<le> length x_raw" and len: "length y_raw = length x_raw"
    and interp: "\<forall>i < length x_raw. ev sx (real i) = x_raw ! i \<and> ev sy (real i) = y_raw ! i"
  shows "length (fit_raw ev sx sy x_raw num) = num
       \<and> length (t_fit x_raw num) = num
       \<and> (\<forall>i < num. t_fit x_raw num ! i = real i * ((real (length x_raw) - 1) / (real num - 1)))
       \<and> sorted_wrt (<) (t_fit x_raw num)
       \<and> (\<forall>i < num. fit_raw ev sx sy x_raw num ! i
                      = (ev sx (t_fit x_raw num ! i), ev sy (t_fit x_raw num ! i)))
       \<and> hd (t_fit x_raw num) = 0
       \<and> last (t_fit x_raw num) = real (length x_raw) - 1
       \<and> hd (fit_raw ev sx sy x_raw num) = (hd x_raw, hd y_raw)
       \<and> last (fit_raw ev sx sy x_raw num) = (last x_raw, last y_raw)
       \<and> length (plot_df_line ev sx sy x_raw fx fy) = 200
       \<and> map (\<lambda>r. snd (snd r)) (plot_df_line ev sx sy x_raw fx fy) = t_fit x_raw 200
       \<and> map (\<lambda>(x, y, t). (x, y)) (plot_df_line ev sx sy x_raw 1 1)
           = fit_raw ev sx sy x_raw 200"
proof -
  let ?n = "length x_raw"
  let ?t = "t_fit x_raw num"
  let ?p = "fit_raw ev sx sy x_raw num"
  have stop: "real_of_int (int ?n - 1) = real ?n - 1" by simp
  have lt: "length ?t = num" by (simp add: t_fit_def linspace_length)
  have lp: "length ?p = num" by (simp add: fit_raw_def Let_def lt)
  have nth_t: "?t ! i = real i * ((real ?n - 1) / (real num - 1))" if "i < num" for i
    using linspace_nth [OF num that, of 0 "real ?n - 1"] by (simp add: t_fit_def)
  have incr: "sorted_wrt (<) ?t"
    unfolding t_fit_def using n by (intro linspace_strict [OF num]) simp
  have nth_p: "?p ! i = (ev sx (?t ! i), ev sy (?t ! i))" if "i < num" for i
    using that by (simp add: fit_raw_def Let_def lt)
  have ne: "?t \<noteq> []" "?p \<noteq> []" "x_raw \<noteq> []" "y_raw \<noteq> []"
    using lt lp num n len by auto
  have t0: "?t ! 0 = 0" using nth_t [of 0] num by simp
  have denom: "real num - 1 \<noteq> 0" using num by auto
  have "real (num - 1) = real num - 1" using num by (simp add: of_nat_diff)
  then have tl: "?t ! (num - 1) = real (?n - 1)"
    using nth_t [of "num - 1"] num n denom by (simp add: of_nat_diff)
  have h0: "hd ?t = 0" using t0 ne by (simp add: hd_conv_nth)
  have hl: "last ?t = real ?n - 1" using tl ne lt n by (simp add: last_conv_nth of_nat_diff)
  have i0: "ev sx 0 = x_raw ! 0" "ev sy 0 = y_raw ! 0"
    using interp n by (metis less_le_trans of_nat_0 zero_less_numeral)+
  have il: "ev sx (real (?n - 1)) = x_raw ! (?n - 1)" "ev sy (real (?n - 1)) = y_raw ! (?n - 1)"
  proof -
    have "?n - 1 < ?n" using n by simp
    then show "ev sx (real (?n - 1)) = x_raw ! (?n - 1)" "ev sy (real (?n - 1)) = y_raw ! (?n - 1)"
      using interp by blast+
  qed
  have p0: "hd ?p = (hd x_raw, hd y_raw)"
    using nth_p [of 0] num t0 i0 ne by (simp add: hd_conv_nth)
  have pl: "last ?p = (last x_raw, last y_raw)"
    using nth_p [of "num - 1"] num tl il ne lp len by (simp add: last_conv_nth)
  show ?thesis
    using lp lt nth_t incr nth_p h0 hl p0 pl plot_df_line_length [of ev sx sy x_raw fx fy]
      plot_df_line_order_col [of ev sx sy x_raw fx fy] plot_df_line_unit [of ev sx sy x_raw]
    by blast
qed

theorem resample_points_witness:
  "length (fit_raw lerp ([0, 1], [1, 3], 0, 1) ([0, 1], [2, 5], 0, 1) [1, 3 :: real] 3) = 3
 \<and> hd (fit_raw lerp ([0, 1], [1, 3], 0, 1) ([0, 1], [2, 5], 0, 1) [1, 3 :: real] 3) = (1, 2)
 \<and> last (fit_raw lerp ([0, 1], [1, 3], 0, 1) ([0, 1], [2, 5], 0, 1) [1, 3 :: real] 3) = (3, 5)
 \<and> hd (t_fit [1, 3 :: real] 3) = 0
 \<and> last (t_fit [1, 3 :: real] 3) = 1"
proof -
  have i: "\<forall>i < length [1, 3 :: real].
      lerp ([0, 1], [1, 3], 0, 1) (real i) = [1, 3] ! i
    \<and> lerp ([0, 1], [2, 5], 0, 1) (real i) = [2, 5] ! i"
    by (auto simp: lerp_def less_Suc_eq)
  have a: "(2::nat) \<le> 3" and b: "2 \<le> length [1, 3 :: real]"
    and c: "length [2, 5 :: real] = length [1, 3 :: real]" by simp_all
  from resample_points [where num = 3 and x_raw = "[1, 3]" and y_raw = "[2, 5]" and ev = lerp
      and sx = "([0, 1], [1, 3], 0, 1)" and sy = "([0, 1], [2, 5], 0, 1)"]
    a b c i
  show ?thesis by simp
qed

end
